theory Spec2Isabelle
  imports
    Complex_Main
    "HOL-Library.Char_ord"
    "HOL-Library.List_Lexorder"
    "HOL-Library.Product_Lexorder"
    "HOL-Library.Multiset"
begin

section \<open>The image plane model of the mesh generator step\<close>

text \<open>
  A shallow embedding of \<^verbatim>\<open>meshplanemodel.py\<close> (class \<^verbatim>\<open>MeshPlaneModel\<close> and the
  module functions \<^verbatim>\<open>tryint\<close> and \<^verbatim>\<open>alphanum_key\<close>).

  Conventions of the embedding.
  \<^item> Python floats are the exact reals of HOL: rounding, infinities and NaN of IEEE
    arithmetic are outside the model. Python integers are \<open>int\<close> or \<open>nat\<close>.
  \<^item> A position is the triple of the three components that Zinc's
    \<^verbatim>\<open>evaluateReal(cache, 3)\<close> yields.
  \<^item> Every exception the source can raise is a value of \<open>error\<close>; a method of the class
    takes the object's state and returns its result (or the error) with the state it
    leaves behind, so that what an exception leaves mutated is visible.
  \<^item> The Zinc region, scene and graphics, the file system and the image probes are
    collaborators outside the repository. Of a region the model keeps what the class
    reads or writes: the node coordinates in nodeset order, the nesting depth of
    \<^verbatim>\<open>beginChange\<close>/\<^verbatim>\<open>endChange\<close>, the graphics of its scene and the scene's
    visibility flag. Object identity of regions is not modelled.
  \<^item> The two position transforms of the base class \<^verbatim>\<open>MeshAlignmentModel\<close>
    (\<^verbatim>\<open>_getSceneTransformationFromAdjustedPosition\<close> and
    \<^verbatim>\<open>_getSceneTransformationToAdjustedPosition\<close>) are not part of this file of the
    source; they are parameters \<open>from_adj\<close> and \<open>to_adj\<close> of the functions that call them.
\<close>

subsection \<open>Errors and arithmetic of Python\<close>

datatype error = ZeroDivisionError | IndexError | AttributeError | TypeError | ValueError

text \<open>Sequencing of computations that may raise.\<close>

definition seq :: "error + 'a \<Rightarrow> ('a \<Rightarrow> error + 'b) \<Rightarrow> error + 'b" where
  "seq m f = (case m of Inl e \<Rightarrow> Inl e | Inr v \<Rightarrow> f v)"



subsection \<open>Vector operations (\<^verbatim>\<open>opencmiss.utils.maths.vectorops\<close>)\<close>

type_synonym vec3 = "real \<times> real \<times> real"







subsection \<open>The natural sort key\<close>

text \<open>
  \<^verbatim>\<open>re.split('([0-9]+)', s)\<close> cuts \<open>s\<close> into runs without a digit and runs of digits,
  alternating, the first and the last run being without a digit (and possibly empty).
  Strings are byte strings here; \<^verbatim>\<open>[0-9]\<close> is the ASCII digits.
\<close>

definition is_digit :: "char \<Rightarrow> bool" where
  "is_digit c = (CHR ''0'' \<le> c \<and> c \<le> CHR ''9'')"

function re_split_digits :: "string \<Rightarrow> string list" where
  "re_split_digits s =
     (let a = takeWhile (\<lambda>c. \<not> is_digit c) s;
          r = dropWhile (\<lambda>c. \<not> is_digit c) s
      in if r = [] then [a]
         else a # takeWhile is_digit r # re_split_digits (dropWhile is_digit r))"
  by pat_completeness auto
termination
proof (relation "measure length")
  show "wf (measure length)" by simp
next
  fix s :: string and a r
  assume r: "r = dropWhile (\<lambda>c. \<not> is_digit c) s" and ne: "r \<noteq> []"
  have "is_digit (hd r)"
    using r ne hd_dropWhile [of "\<lambda>c. \<not> is_digit c" s] by simp
  then have "dropWhile is_digit r = dropWhile is_digit (tl r)"
    using ne by (cases r) simp_all
  moreover have "length (dropWhile is_digit (tl r)) \<le> length (tl r)"
    by (rule length_dropWhile_le)
  ultimately have "length (dropWhile is_digit r) \<le> length (tl r)"
    by simp
  also have "\<dots> < length r" using ne by (cases r) simp_all
  also have "\<dots> \<le> length s" unfolding r by (rule length_dropWhile_le)
  finally show "(dropWhile is_digit r, s) \<in> measure length" by simp
qed

declare re_split_digits.simps [simp del]

text \<open>A chunk of the key: what \<^verbatim>\<open>tryint\<close> returns, a string or an integer.\<close>

datatype chunk = Str string | Num nat

definition digit_value :: "char \<Rightarrow> nat" where
  "digit_value c = of_char c - 48"

definition int_of_digits :: "string \<Rightarrow> nat" where
  "int_of_digits s = foldl (\<lambda>n c. 10 * n + digit_value c) 0 s"

text \<open>
  \<^verbatim>\<open>tryint\<close>: \<^verbatim>\<open>int(s)\<close>, and \<open>s\<close> itself when that raises. On the runs that
  \<^verbatim>\<open>re.split\<close> produces, \<^verbatim>\<open>int\<close> succeeds on the non-empty runs of digits and raises
  \<^verbatim>\<open>ValueError\<close> on the runs without a digit.
\<close>

definition tryint :: "string \<Rightarrow> chunk" where
  "tryint s = (if s \<noteq> [] \<and> list_all is_digit s then Num (int_of_digits s) else Str s)"

definition alphanum_key :: "string \<Rightarrow> chunk list" where
  "alphanum_key s = map tryint (re_split_digits s)"

text \<open>
  Python's \<^verbatim>\<open><\<close>: on two strings the order of the code points, on two integers the
  numeric order, \<^verbatim>\<open>TypeError\<close> on a string and an integer. On two lists: the first
  pair of elements that are not equal decides, and a proper prefix is smaller.
\<close>

fun chunk_lt :: "chunk \<Rightarrow> chunk \<Rightarrow> error + bool" where
  "chunk_lt (Str a) (Str b) = Inr (a < b)"
| "chunk_lt (Num m) (Num n) = Inr (m < n)"
| "chunk_lt (Str a) (Num n) = Inl TypeError"
| "chunk_lt (Num m) (Str b) = Inl TypeError"

fun list_lt :: "chunk list \<Rightarrow> chunk list \<Rightarrow> error + bool" where
  "list_lt [] [] = Inr False"
| "list_lt [] (y # ys) = Inr True"
| "list_lt (x # xs) [] = Inr False"
| "list_lt (x # xs) (y # ys) = (if x = y then list_lt xs ys else chunk_lt x y)"

text \<open>
  \<^verbatim>\<open>sorted(names, key=alphanum_key)\<close>. Python's sort is stable and compares keys with
  \<^verbatim>\<open><\<close> only; the model is the stable insertion sort, which gives the same list, and
  raises when a comparison does.
\<close>

fun insert_by_key :: "string \<Rightarrow> string list \<Rightarrow> error + string list" where
  "insert_by_key x [] = Inr [x]"
| "insert_by_key x (y # ys) =
     seq (list_lt (alphanum_key y) (alphanum_key x)) (\<lambda>b.
       if b then seq (insert_by_key x ys) (\<lambda>zs. Inr (y # zs))
       else Inr (x # y # ys))"

fun sorted_alphanum :: "string list \<Rightarrow> error + string list" where
  "sorted_alphanum [] = Inr []"
| "sorted_alphanum (x # xs) = seq (sorted_alphanum xs) (insert_by_key x)"

subsection \<open>The collaborators: region, scene, files\<close>

datatype coordinate_field = ScaledCoordinateField | FixedCoordinateField

datatype material = Silver | ImageMaterial "string list"

record graphics =
  g_name :: string
  g_exterior :: bool
  g_coordinate_field :: "coordinate_field option"
  g_texture_coordinates :: bool
  g_material :: "material option"

record zinc_region =
  nodes :: "vec3 list"
  change_level :: nat
  scene_graphics :: "graphics list"
  scene_change_level :: nat
  scene_visible :: bool

text \<open>\<^verbatim>\<open>parent_region.createChild(name)\<close>: a region without nodes or graphics.\<close>

definition createChild :: zinc_region where
  "createChild =
     \<lparr>nodes = [], change_level = 0, scene_graphics = [], scene_change_level = 0,
      scene_visible = True\<rparr>"

definition beginChange :: "zinc_region \<Rightarrow> zinc_region" where
  "beginChange r = r\<lparr>change_level := Suc (change_level r)\<rparr>"

definition endChange :: "zinc_region \<Rightarrow> zinc_region" where
  "endChange r = r\<lparr>change_level := change_level r - 1\<rparr>"

definition createGraphics_new :: graphics where
  "createGraphics_new =
     \<lparr>g_name = [], g_exterior = False, g_coordinate_field = None,
      g_texture_coordinates = False, g_material = None\<rparr>"

text \<open>\<^verbatim>\<open>scene.findGraphicsByName(name)\<close>: the first graphics of that name; an invalid
  handle (here \<open>None\<close>) when there is none.\<close>

definition findGraphicsByName :: "zinc_region \<Rightarrow> string \<Rightarrow> graphics option" where
  "findGraphicsByName r name = find (\<lambda>g. g_name g = name) (scene_graphics r)"

text \<open>A setter called on the handle that \<^verbatim>\<open>findGraphicsByName\<close> returned: it changes
  the first graphics of that name, and nothing on an invalid handle.\<close>

fun update_first :: "string \<Rightarrow> (graphics \<Rightarrow> graphics) \<Rightarrow> graphics list \<Rightarrow> graphics list" where
  "update_first name f [] = []"
| "update_first name f (g # gs) =
     (if g_name g = name then f g # gs else g # update_first name f gs)"

definition update_graphics :: "string \<Rightarrow> (graphics \<Rightarrow> graphics) \<Rightarrow> zinc_region \<Rightarrow> zinc_region" where
  "update_graphics name f r = r\<lparr>scene_graphics := update_first name f (scene_graphics r)\<rparr>"

text \<open>The file system and the image probes (\<^verbatim>\<open>os.path\<close>, \<^verbatim>\<open>os.listdir\<close>,
  \<^verbatim>\<open>imghdr.what\<close>, \<^verbatim>\<open>get_image_size.get_image_size\<close>), as the answers they give.\<close>

record filesystem =
  os_path_isdir :: "string \<Rightarrow> bool"
  os_path_exists :: "string \<Rightarrow> bool"
  os_listdir :: "string \<Rightarrow> string list"
  imghdr_what :: "string \<Rightarrow> bool"
  get_image_size :: "string \<Rightarrow> int \<times> int"

text \<open>\<^verbatim>\<open>os.path.join(location, item)\<close> for an entry \<open>item\<close> of a directory listing.\<close>

definition os_path_join :: "string \<Rightarrow> string \<Rightarrow> string" where
  "os_path_join location item =
     (if location = [] \<or> last location = CHR ''/'' then location @ item
      else location @ ''/'' @ item)"

subsection \<open>The state of a \<^verbatim>\<open>MeshPlaneModel\<close>\<close>

record plane_settings =
  display_image_plane :: bool
  image_plane_fixed :: bool
  alignment :: "(string \<times> real list) list"

text \<open>
  \<open>region\<close> is \<^verbatim>\<open>self._region\<close> together with \<^verbatim>\<open>self._scene\<close>, the scene of that
  region: the class assigns both in \<^verbatim>\<open>_reset\<close> only, and both are \<^verbatim>\<open>None\<close> before.
\<close>

record MeshPlaneModel =
  frame_count :: nat
  region :: "zinc_region option"
  settings :: plane_settings

definition init :: MeshPlaneModel where
  "init =
     \<lparr>frame_count = 0, region = None,
      settings = \<lparr>display_image_plane = True, image_plane_fixed = False, alignment = []\<rparr>\<rparr>"

subsection \<open>Reading and writing the node positions\<close>

text \<open>The loop of \<^verbatim>\<open>getNodeLocations\<close> over the node iterator.\<close>

fun getNodeLocations_loop :: "(vec3 \<Rightarrow> vec3) \<Rightarrow> vec3 list \<Rightarrow> vec3 list \<Rightarrow> vec3 list" where
  "getNodeLocations_loop from_adj [] node_positions = node_positions"
| "getNodeLocations_loop from_adj (position # rest) node_positions =
     getNodeLocations_loop from_adj rest (node_positions @ [from_adj position])"

definition getNodeLocations ::
  "(vec3 \<Rightarrow> vec3) \<Rightarrow> MeshPlaneModel \<Rightarrow> (error + vec3 list) \<times> MeshPlaneModel" where
  "getNodeLocations from_adj m =
     (case region m of
        None \<Rightarrow> (Inl AttributeError, m)
      | Some r \<Rightarrow>
          let r1 = beginChange r;
              node_positions = getNodeLocations_loop from_adj (nodes r1) [];
              r2 = endChange r1
          in (Inr node_positions, m\<lparr>region := Some r2\<rparr>))"

text \<open>
  The loop of \<^verbatim>\<open>setNodeLocations\<close>: \<open>todo\<close> are the nodes the iterator has not
  reached, \<open>assigned\<close> the coordinates already assigned. \<^verbatim>\<open>node_positions[index]\<close> raises
  \<^verbatim>\<open>IndexError\<close> when the index is not below the length of the sequence; the
  coordinates assigned before stay assigned.
\<close>

fun setNodeLocations_loop ::
  "(vec3 \<Rightarrow> vec3) \<Rightarrow> vec3 list \<Rightarrow> nat \<Rightarrow> vec3 list \<Rightarrow> vec3 list \<Rightarrow> error option \<times> vec3 list" where
  "setNodeLocations_loop to_adj node_positions index [] assigned = (None, assigned)"
| "setNodeLocations_loop to_adj node_positions index (old # todo) assigned =
     (if index < length node_positions
      then setNodeLocations_loop to_adj node_positions (Suc index) todo
             (assigned @ [to_adj (node_positions ! index)])
      else (Some IndexError, assigned @ old # todo))"

definition setNodeLocations ::
  "(vec3 \<Rightarrow> vec3) \<Rightarrow> vec3 list \<Rightarrow> MeshPlaneModel \<Rightarrow> (error + unit) \<times> MeshPlaneModel" where
  "setNodeLocations to_adj node_positions m =
     (case region m of
        None \<Rightarrow> (Inl AttributeError, m)
      | Some r \<Rightarrow>
          let r1 = beginChange r in
          (case setNodeLocations_loop to_adj node_positions 0 (nodes r1) [] of
             (Some e, ns) \<Rightarrow> (Inl e, m\<lparr>region := Some (r1\<lparr>nodes := ns\<rparr>)\<rparr>)
           | (None, ns) \<Rightarrow> (Inr (), m\<lparr>region := Some (endChange (r1\<lparr>nodes := ns\<rparr>))\<rparr>)))"

subsection \<open>Orientation and centre of the plane\<close>


subsection \<open>Frame index and time\<close>

definition getFrameCount :: "MeshPlaneModel \<Rightarrow> nat" where
  "getFrameCount m = frame_count m"



subsection \<open>Settings: visibility and the fixed mode\<close>

definition isImagePlaneFixed :: "MeshPlaneModel \<Rightarrow> bool" where
  "isImagePlaneFixed m = image_plane_fixed (settings m)"

definition isDisplayImagePlane :: "MeshPlaneModel \<Rightarrow> bool" where
  "isDisplayImagePlane m = display_image_plane (settings m)"

text \<open>
  \<^verbatim>\<open>setImagePlaneFixed\<close>. The calls \<^verbatim>\<open>_updateFixedProjectionField\<close> and
  \<^verbatim>\<open>_updateAlignmentValues\<close> of the base classes recompute the values of the two
  coordinate fields; which field a graphics is bound to is what the model keeps.
\<close>

definition setImagePlaneFixed :: "bool \<Rightarrow> MeshPlaneModel \<Rightarrow> MeshPlaneModel" where
  "setImagePlaneFixed state m =
     (let m1 = m\<lparr>settings := (settings m)\<lparr>image_plane_fixed := state\<rparr>\<rparr> in
      case region m1 of
        None \<Rightarrow> m1
      | Some r \<Rightarrow>
          (case findGraphicsByName r ''plane-surfaces'' of
             None \<Rightarrow> m1
           | Some surface_graphics \<Rightarrow>
               if state then
                 m1\<lparr>region := Some
                   (update_graphics ''plane-lines'' (\<lambda>g. g\<lparr>g_coordinate_field := Some FixedCoordinateField\<rparr>)
                   (update_graphics ''plane-surfaces'' (\<lambda>g. g\<lparr>g_coordinate_field := Some FixedCoordinateField\<rparr>) r))\<rparr>
               else
                 m1\<lparr>region := Some
                   (update_graphics ''plane-lines'' (\<lambda>g. g\<lparr>g_coordinate_field := Some ScaledCoordinateField\<rparr>)
                   (update_graphics ''plane-surfaces'' (\<lambda>g. g\<lparr>g_coordinate_field := Some ScaledCoordinateField\<rparr>) r))\<rparr>))"

definition setImagePlaneVisible :: "bool \<Rightarrow> MeshPlaneModel \<Rightarrow> MeshPlaneModel" where
  "setImagePlaneVisible state m =
     (let m1 = m\<lparr>settings := (settings m)\<lparr>display_image_plane := state\<rparr>\<rparr> in
      case region m1 of
        None \<Rightarrow> m1
      | Some r \<Rightarrow> m1\<lparr>region := Some (r\<lparr>scene_visible := state\<rparr>)\<rparr>)"

subsection \<open>Building the region: \<^verbatim>\<open>_reset\<close>, \<^verbatim>\<open>_createModel\<close>, \<^verbatim>\<open>_createGraphics\<close>\<close>

text \<open>\<^verbatim>\<open>createSquare2DFiniteElement\<close> with the four corners of the unit square.\<close>

definition createModel :: "zinc_region \<Rightarrow> zinc_region" where
  "createModel r =
     r\<lparr>nodes := [(-0.5, -0.5, 0.0), (0.5, -0.5, 0.0), (-0.5, 0.5, 0.0), (0.5, 0.5, 0.0)]\<rparr>"

text \<open>Both graphics are bound to \<^verbatim>\<open>self._scaledCoordinateField\<close>; the scene's visibility
  is taken from the settings.\<close>

definition createGraphics :: "MeshPlaneModel \<Rightarrow> zinc_region \<Rightarrow> zinc_region" where
  "createGraphics m r =
     (let r1 = r\<lparr>scene_change_level := Suc (scene_change_level r)\<rparr>;
          r2 = r1\<lparr>scene_graphics := []\<rparr>;
          lines = createGraphics_new
            \<lparr>g_exterior := True, g_name := ''plane-lines'',
             g_coordinate_field := Some ScaledCoordinateField\<rparr>;
          r3 = r2\<lparr>scene_graphics := scene_graphics r2 @ [lines]\<rparr>;
          surfaces = createGraphics_new
            \<lparr>g_name := ''plane-surfaces'',
             g_coordinate_field := Some ScaledCoordinateField,
             g_texture_coordinates := True,
             g_material := Some Silver\<rparr>;
          r4 = r3\<lparr>scene_graphics := scene_graphics r3 @ [surfaces]\<rparr>;
          r5 = r4\<lparr>scene_visible := isDisplayImagePlane m\<rparr>
      in r5\<lparr>scene_change_level := scene_change_level r5 - 1\<rparr>)"

text \<open>\<^verbatim>\<open>_reset\<close>: the old child region, when there is one, is removed from the parent, and
  a new one is created and filled.\<close>

definition reset :: "MeshPlaneModel \<Rightarrow> MeshPlaneModel" where
  "reset m = m\<lparr>region := Some (createGraphics m (createModel createChild))\<rparr>"

subsection \<open>Loading the images\<close>

text \<open>The product with the tiled column \<^verbatim>\<open>[width/1000.0, height/1000.0, 1.0]\<close>.\<close>

fun rescale :: "int \<Rightarrow> int \<Rightarrow> vec3 \<Rightarrow> vec3" where
  "rescale width height (x, y, z) =
     (x * (real_of_int width / 1000.0), y * (real_of_int height / 1000.0), z * 1.0)"

text \<open>The last two statements of \<^verbatim>\<open>_load_images\<close>: the material of the image field is
  set on the surface graphics.\<close>

definition set_image_material :: "string list \<Rightarrow> MeshPlaneModel \<Rightarrow> MeshPlaneModel" where
  "set_image_material images m =
     (case region m of
        None \<Rightarrow> m
      | Some r \<Rightarrow>
          m\<lparr>region := Some
            (update_graphics ''plane-surfaces'' (\<lambda>g. g\<lparr>g_material := Some (ImageMaterial images)\<rparr>) r)\<rparr>)"

text \<open>
  \<^verbatim>\<open>_load_images\<close>. With no node at all, \<^verbatim>\<open>np.matrix([])\<close> has the shape \<open>(1, 0)\<close>
  and the product cannot be broadcast: \<^verbatim>\<open>ValueError\<close>.
\<close>

definition load_images ::
  "filesystem \<Rightarrow> (vec3 \<Rightarrow> vec3) \<Rightarrow> (vec3 \<Rightarrow> vec3) \<Rightarrow> string list \<Rightarrow> MeshPlaneModel
     \<Rightarrow> (error + unit) \<times> MeshPlaneModel" where
  "load_images fs from_adj to_adj images m =
     (case region m of
        None \<Rightarrow> (Inl AttributeError, m)
      | Some r \<Rightarrow>
          let m1 = m\<lparr>frame_count := length images\<rparr> in
          if frame_count m1 > 0 then
            (case get_image_size fs (hd images) of (width, height) \<Rightarrow>
               if width \<noteq> - 1 \<or> height \<noteq> - 1 then
                 (case getNodeLocations from_adj m1 of
                    (Inl e, m2) \<Rightarrow> (Inl e, m2)
                  | (Inr node_locations, m2) \<Rightarrow>
                      if node_locations = [] then (Inl ValueError, m2)
                      else
                        (case setNodeLocations to_adj (map (rescale width height) node_locations) m2 of
                           (Inl e, m3) \<Rightarrow> (Inl e, m3)
                         | (Inr u, m3) \<Rightarrow> (Inr (), set_image_material images m3)))
               else (Inr (), set_image_material images m1))
          else (Inr (), m1))"

text \<open>
  \<^verbatim>\<open>setImageInfo\<close>; \<open>image_info\<close> is \<open>None\<close> or the location that
  \<^verbatim>\<open>image_info.location()\<close> returns.
\<close>

definition find_images :: "filesystem \<Rightarrow> string \<Rightarrow> error + string list" where
  "find_images fs location =
     (if os_path_isdir fs location then
        seq (sorted_alphanum (os_listdir fs location)) (\<lambda>items.
          Inr (filter (imghdr_what fs) (map (os_path_join location) items)))
      else if os_path_exists fs location then
        (if imghdr_what fs location then Inr [location] else Inr [])
      else Inr [])"

definition setImageInfo ::
  "filesystem \<Rightarrow> (vec3 \<Rightarrow> vec3) \<Rightarrow> (vec3 \<Rightarrow> vec3) \<Rightarrow> string option \<Rightarrow> MeshPlaneModel
     \<Rightarrow> (error + unit) \<times> MeshPlaneModel" where
  "setImageInfo fs from_adj to_adj image_info m =
     (case image_info of
        None \<Rightarrow> (Inr (), m)
      | Some location \<Rightarrow>
          (case find_images fs location of
             Inl e \<Rightarrow> (Inl e, m)
           | Inr images \<Rightarrow> load_images fs from_adj to_adj images (reset m)))"

subsection \<open>Auxiliary notions of the proofs\<close>




text \<open>An example of a file system: the one image file \<^verbatim>\<open>a.png\<close> of 2000 by 1000 pixels.\<close>

abbreviation one_image_fs :: filesystem where
  "one_image_fs \<equiv>
     \<lparr>os_path_isdir = (\<lambda>p. False), os_path_exists = (\<lambda>p. p = ''a.png''),
      os_listdir = (\<lambda>p. []), imghdr_what = (\<lambda>p. p = ''a.png''),
      get_image_size = (\<lambda>p. (2000, 1000))\<rparr>"

section \<open>Properties\<close>

subsection \<open>Basic facts\<close>

lemma seq_Inr [simp]: "seq (Inr v) f = f v"
  by (simp add: seq_def)

lemma seq_Inl [simp]: "seq (Inl e) f = Inl e"
  by (simp add: seq_def)

lemma getNodeLocations_loop_eq:
  "getNodeLocations_loop from_adj ns acc = acc @ map from_adj ns"
  by (induction ns arbitrary: acc) simp_all

lemma end_begin_change [simp]: "endChange (beginChange r) = r"
  by (simp add: endChange_def beginChange_def)

lemma getNodeLocations_Some:
  "region m = Some r \<Longrightarrow> getNodeLocations from_adj m = (Inr (map from_adj (nodes r)), m)"
  by (simp add: getNodeLocations_def getNodeLocations_loop_eq Let_def beginChange_def endChange_def)

lemma setNodeLocations_loop_eq:
  "index \<le> length ps \<Longrightarrow>
   setNodeLocations_loop to_adj ps index todo assigned =
     (if index + length todo \<le> length ps
      then (None, assigned @ map to_adj (take (length todo) (drop index ps)))
      else (Some IndexError,
            assigned @ map to_adj (drop index ps) @ drop (length ps - index) todo))"
proof (induction todo arbitrary: index assigned)
  case Nil
  then show ?case by simp
next
  case (Cons old todo)
  show ?case
  proof (cases "index < length ps")
    case True
    then have d: "drop index ps = ps ! index # drop (Suc index) ps"
      by (simp add: Cons_nth_drop_Suc)
    have s: "length ps - index = Suc (length ps - Suc index)"
      using True by simp
    from True have "Suc index \<le> length ps" by simp
    from Cons.IH [OF this] True show ?thesis
      by (simp add: d s)
  next
    case False
    with Cons.prems have "index = length ps" by simp
    then show ?thesis by simp
  qed
qed

lemma setNodeLocations_short:
  assumes "region m = Some r" and "length ps < length (nodes r)"
  shows "setNodeLocations to_adj ps m =
           (Inl IndexError,
            m\<lparr>region := Some ((beginChange r)\<lparr>nodes := map to_adj ps @ drop (length ps) (nodes r)\<rparr>)\<rparr>)"
  using assms
  by (simp add: setNodeLocations_def setNodeLocations_loop_eq Let_def beginChange_def)

lemma setNodeLocations_long:
  assumes "region m = Some r" and "length (nodes r) \<le> length ps"
  shows "setNodeLocations to_adj ps m =
           (Inr (), m\<lparr>region := Some (r\<lparr>nodes := map to_adj (take (length (nodes r)) ps)\<rparr>)\<rparr>)"
  using assms
  by (simp add: setNodeLocations_def setNodeLocations_loop_eq Let_def beginChange_def endChange_def)

lemma reset_init:
  "reset init =
     \<lparr>frame_count = 0,
      region = Some
        \<lparr>nodes = [(-0.5, -0.5, 0), (0.5, -0.5, 0), (-0.5, 0.5, 0), (0.5, 0.5, 0)],
         change_level = 0,
         scene_graphics =
           [\<lparr>g_name = ''plane-lines'', g_exterior = True,
             g_coordinate_field = Some ScaledCoordinateField,
             g_texture_coordinates = False, g_material = None\<rparr>,
            \<lparr>g_name = ''plane-surfaces'', g_exterior = False,
             g_coordinate_field = Some ScaledCoordinateField,
             g_texture_coordinates = True, g_material = Some Silver\<rparr>],
         scene_change_level = 0,
         scene_visible = True\<rparr>,
      settings = \<lparr>display_image_plane = True, image_plane_fixed = False, alignment = []\<rparr>\<rparr>"
  by (simp add: reset_def init_def createGraphics_def createModel_def createChild_def
      createGraphics_new_def isDisplayImagePlane_def Let_def)


lemma reset_graphics:
  "\<exists>r. region (reset m) = Some r
      \<and> map (\<lambda>g. (g_name g, g_coordinate_field g)) (scene_graphics r) =
          [(''plane-lines'', Some ScaledCoordinateField),
           (''plane-surfaces'', Some ScaledCoordinateField)]"
  by (simp add: reset_def createGraphics_def createModel_def createChild_def
      createGraphics_new_def Let_def)



lemma load_images_rescale:
  assumes "region m = Some r" and "images \<noteq> []"
    and "get_image_size fs (hd images) = (width, height)"
    and "width \<noteq> - 1 \<or> height \<noteq> - 1" and "nodes r \<noteq> []"
  shows "load_images fs from_adj to_adj images m =
     (Inr (),
      m\<lparr>frame_count := length images,
        region := Some (update_graphics ''plane-surfaces''
           (\<lambda>g. g\<lparr>g_material := Some (ImageMaterial images)\<rparr>)
           (r\<lparr>nodes := map (\<lambda>p. to_adj (rescale width height (from_adj p))) (nodes r)\<rparr>))\<rparr>)"
proof -
  let ?m1 = "m\<lparr>frame_count := length images\<rparr>"
  have r1: "region ?m1 = Some r" using assms(1) by simp
  have g: "getNodeLocations from_adj ?m1 = (Inr (map from_adj (nodes r)), ?m1)"
    by (rule getNodeLocations_Some [OF r1])
  have s: "setNodeLocations to_adj (map (\<lambda>x. rescale width height (from_adj x)) (nodes r)) ?m1 =
      (Inr (), ?m1\<lparr>region := Some (r\<lparr>nodes :=
          map (\<lambda>p. to_adj (rescale width height (from_adj p))) (nodes r)\<rparr>)\<rparr>)"
    using setNodeLocations_long [OF r1, of "map (\<lambda>x. rescale width height (from_adj x)) (nodes r)" to_adj]
    by (simp add: o_def)
  show ?thesis
    using assms by (simp add: load_images_def r1 g s set_image_material_def o_def)
qed

lemma rescale_eq:
  "rescale width height = (\<lambda>(x, y, z). (x * (real_of_int width / 1000), y * (real_of_int height / 1000), z))"
  by (auto simp add: fun_eq_iff)

lemma setImagePlaneFixed_no_scene:
  "region m = None \<Longrightarrow>
   setImagePlaneFixed b m = m\<lparr>settings := (settings m)\<lparr>image_plane_fixed := b\<rparr>\<rparr>"
  by (simp add: setImagePlaneFixed_def Let_def)

subsection \<open>Frame index and time\<close>






subsection \<open>Orientation and centre\<close>









subsection \<open>Loading images\<close>

text \<open>
  Claim C3. When \<^verbatim>\<open>_load_images\<close> is given at least one image and the probe of the first
  one yields \<open>(width, height)\<close> (not the pair \<open>(-1, -1)\<close> of a failed probe), every node
  position has its x component multiplied by \<open>width / 1000\<close>, its y component by
  \<open>height / 1000\<close> and its z component unchanged. The positions are the ones
  \<^verbatim>\<open>getNodeLocations\<close> reads, the two alignment transforms being inverse to each other;
  the stored coordinate of a node is the transform back of its rescaled position.
\<close>

theorem load_images_rescales_nodes:
  assumes "region m = Some r" and "images \<noteq> []"
    and "get_image_size fs (hd images) = (width, height)"
    and "width \<noteq> - 1 \<or> height \<noteq> - 1" and "nodes r \<noteq> []"
    and "\<forall>p. from_adj (to_adj p) = p"
  shows "\<exists>m' r'. load_images fs from_adj to_adj images m = (Inr (), m')
      \<and> frame_count m' = length images
      \<and> region m' = Some r'
      \<and> nodes r' =
          map (\<lambda>p. to_adj (case from_adj p of (x, y, z) \<Rightarrow>
                 (x * (real_of_int width / 1000), y * (real_of_int height / 1000), z))) (nodes r)
      \<and> fst (getNodeLocations from_adj m') =
          Inr (map (\<lambda>(x, y, z). (x * (real_of_int width / 1000), y * (real_of_int height / 1000), z))
                 (map from_adj (nodes r)))"
proof -
  let ?r' = "update_graphics ''plane-surfaces''
           (\<lambda>g. g\<lparr>g_material := Some (ImageMaterial images)\<rparr>)
           (r\<lparr>nodes := map (\<lambda>p. to_adj (rescale width height (from_adj p))) (nodes r)\<rparr>)"
  let ?m' = "m\<lparr>frame_count := length images, region := Some ?r'\<rparr>"
  have l: "load_images fs from_adj to_adj images m = (Inr (), ?m')"
    by (rule load_images_rescale [OF assms(1-5)])
  have n: "nodes ?r' = map (\<lambda>p. to_adj (rescale width height (from_adj p))) (nodes r)"
    by (simp add: update_graphics_def)
  have g: "getNodeLocations from_adj ?m' = (Inr (map from_adj (nodes ?r')), ?m')"
    by (rule getNodeLocations_Some) simp
  have i: "from_adj (to_adj (rescale width height (from_adj p))) = rescale width height (from_adj p)" for p
    using assms(6) by blast
  have "map from_adj (nodes ?r') = map (rescale width height) (map from_adj (nodes r))"
    by (simp add: n o_def i)
  with l n g show ?thesis
    by (simp add: rescale_eq)
qed

text \<open>
  The theorem on a newly built region, for an image of 2000 by 1000 pixels: the unit
  square with x and y in \<open>{-0.5, 0.5}\<close> becomes x in \<open>{-1, 1}\<close>, y in \<open>{-0.5, 0.5}\<close>.
\<close>

theorem load_images_rescales_nodes_witness:
  "fst (setImageInfo one_image_fs id id (Some ''a.png'') init) = Inr ()
   \<and> frame_count (snd (setImageInfo one_image_fs id id (Some ''a.png'') init)) = 1
   \<and> map_option nodes (region (snd (setImageInfo one_image_fs id id (Some ''a.png'') init))) =
       Some [(- 1, - 0.5, 0), (1, - 0.5, 0), (- 1, 0.5, 0), (1, 0.5, 0)]"
proof -
  obtain r where r: "region (reset init) = Some r"
    and n: "nodes r = [(-0.5, -0.5, 0), (0.5, -0.5, 0), (-0.5, 0.5, 0), (0.5, 0.5, 0)]"
    by (simp add: reset_init)
  have f: "find_images one_image_fs ''a.png'' = Inr [''a.png'']"
    by (simp add: find_images_def)
  have s: "setImageInfo one_image_fs id id (Some ''a.png'') init =
      load_images one_image_fs id id [''a.png''] (reset init)"
    by (simp add: f setImageInfo_def)
  from load_images_rescales_nodes [of "reset init" r "[''a.png'']" one_image_fs 2000 1000 id id]
  show ?thesis
    unfolding s by (auto simp add: r n)
qed




text \<open>
  Claim C10. \<^verbatim>\<open>setImageInfo(None)\<close> does nothing: no reset, no load; frame count, region,
  scene, node positions and settings are unchanged.
\<close>

theorem setImageInfo_None_noop:
  "setImageInfo fs from_adj to_adj None m = (Inr (), m)"
  by (simp add: setImageInfo_def)

text \<open>The theorem on a model that has loaded an image.\<close>

theorem setImageInfo_None_noop_witness:
  "setImageInfo one_image_fs id id None (snd (setImageInfo one_image_fs id id (Some ''a.png'') init))
     = (Inr (), snd (setImageInfo one_image_fs id id (Some ''a.png'') init))"
  by (rule setImageInfo_None_noop)

subsection \<open>Writing node positions\<close>

text \<open>
  Claim C5, as the code has it. \<^verbatim>\<open>setNodeLocations\<close> makes no check of the length of
  the sequence. A sequence shorter than the node count fails with \<^verbatim>\<open>IndexError\<close>; a
  sequence at least as long as the node count does not fail: every node is assigned
  the transform of the position at its index, and the positions beyond are ignored.
\<close>

theorem setNodeLocations_no_arity_check:
  assumes "region m = Some r"
  shows "(length ps < length (nodes r) \<longrightarrow> fst (setNodeLocations to_adj ps m) = Inl IndexError)
       \<and> (length (nodes r) \<le> length ps \<longrightarrow>
            setNodeLocations to_adj ps m =
              (Inr (), m\<lparr>region := Some (r\<lparr>nodes := map to_adj (take (length (nodes r)) ps)\<rparr>)\<rparr>))"
  using assms by (simp add: setNodeLocations_short setNodeLocations_long)

text \<open>The theorem on a newly built region, for three and for five positions.\<close>

theorem setNodeLocations_no_arity_check_witness:
  "fst (setNodeLocations id [(1, 1, 1), (2, 2, 2), (3, 3, 3)] (reset init)) = Inl IndexError
   \<and> fst (setNodeLocations id [(1, 1, 1), (2, 2, 2), (3, 3, 3), (4, 4, 4), (5, 5, 5)] (reset init))
       = Inr ()
   \<and> map_option nodes (region (snd
        (setNodeLocations id [(1, 1, 1), (2, 2, 2), (3, 3, 3), (4, 4, 4), (5, 5, 5)] (reset init))))
       = Some [(1, 1, 1), (2, 2, 2), (3, 3, 3), (4, 4, 4)]"
proof -
  obtain r where r: "region (reset init) = Some r"
    and n: "nodes r = [(-0.5, -0.5, 0), (0.5, -0.5, 0), (-0.5, 0.5, 0), (0.5, 0.5, 0)]"
    by (simp add: reset_init)
  from setNodeLocations_no_arity_check [OF r, of "[(1, 1, 1), (2, 2, 2), (3, 3, 3)]" id]
    setNodeLocations_no_arity_check
      [OF r, of "[(1, 1, 1), (2, 2, 2), (3, 3, 3), (4, 4, 4), (5, 5, 5)]" id]
  show ?thesis
    by (simp add: n)
qed

text \<open>
  Against claim C5 as stated: three positions fail with \<^verbatim>\<open>IndexError\<close> and the first
  three nodes are no longer what they were; five positions do not fail at all, and the
  four nodes get the first four of them.
\<close>

theorem setNodeLocations_three_counterexample:
  "fst (setNodeLocations id [(1, 1, 1), (2, 2, 2), (3, 3, 3)] (reset init)) = Inl IndexError
   \<and> map_option nodes (region (snd (setNodeLocations id [(1, 1, 1), (2, 2, 2), (3, 3, 3)] (reset init))))
       = Some [(1, 1, 1), (2, 2, 2), (3, 3, 3), (0.5, 0.5, 0)]
   \<and> map_option nodes (region (reset init))
       = Some [(-0.5, -0.5, 0), (0.5, -0.5, 0), (-0.5, 0.5, 0), (0.5, 0.5, 0)]
   \<and> setNodeLocations id [(1, 1, 1), (2, 2, 2), (3, 3, 3), (4, 4, 4), (5, 5, 5)] (reset init)
       = (Inr (), (reset init)\<lparr>region := map_option (\<lambda>r. r\<lparr>nodes := [(1, 1, 1), (2, 2, 2), (3, 3, 3), (4, 4, 4)]\<rparr>) (region (reset init))\<rparr>)"
  by (simp add: reset_init setNodeLocations_def Let_def beginChange_def endChange_def)

text \<open>
  Claim C7, at the input where the code breaks it. On a newly built region the nesting
  depth of \<^verbatim>\<open>beginChange\<close> is 0; \<^verbatim>\<open>setNodeLocations\<close> with three positions raises
  \<^verbatim>\<open>IndexError\<close> at the fourth node and leaves the depth at 1: the bracket it opened
  is not closed.
\<close>

theorem setNodeLocations_bracket_left_open:
  "map_option change_level (region (reset init)) = Some 0
   \<and> fst (setNodeLocations id [(1, 1, 1), (2, 2, 2), (3, 3, 3)] (reset init)) = Inl IndexError
   \<and> map_option change_level
        (region (snd (setNodeLocations id [(1, 1, 1), (2, 2, 2), (3, 3, 3)] (reset init)))) = Some 1"
  by (simp add: reset_init setNodeLocations_def Let_def beginChange_def endChange_def)

subsection \<open>The fixed mode\<close>

text \<open>
  Claim C8, at the input where the code breaks it. On a model without a scene,
  \<^verbatim>\<open>setImagePlaneFixed(True)\<close> records the flag in the settings and rebinds nothing.
  When \<^verbatim>\<open>setImageInfo\<close> then creates the scene, the flag is still recorded, and both
  graphics of the plane are bound to the scaled coordinate field, not to the fixed one.
\<close>

theorem fixed_mode_not_applied_on_creation:
  "region init = None
   \<and> setImagePlaneFixed True init = init\<lparr>settings := (settings init)\<lparr>image_plane_fixed := True\<rparr>\<rparr>
   \<and> fst (setImageInfo one_image_fs id id (Some ''a.png'') (setImagePlaneFixed True init)) = Inr ()
   \<and> isImagePlaneFixed (snd (setImageInfo one_image_fs id id (Some ''a.png'') (setImagePlaneFixed True init)))
   \<and> map_option (\<lambda>r. map (\<lambda>g. (g_name g, g_coordinate_field g)) (scene_graphics r))
        (region (snd (setImageInfo one_image_fs id id (Some ''a.png'') (setImagePlaneFixed True init)))) =
       Some [(''plane-lines'', Some ScaledCoordinateField),
             (''plane-surfaces'', Some ScaledCoordinateField)]"
proof -
  let ?m = "setImagePlaneFixed True init"
  have i: "region init = None" by (simp add: init_def)
  have m: "?m = init\<lparr>settings := (settings init)\<lparr>image_plane_fixed := True\<rparr>\<rparr>"
    by (rule setImagePlaneFixed_no_scene [OF i])
  have f: "find_images one_image_fs ''a.png'' = Inr [''a.png'']"
    by (simp add: find_images_def)
  have r: "region (reset ?m) = Some (createGraphics ?m (createModel createChild))"
    by (simp add: reset_def)
  have l: "setImageInfo one_image_fs id id (Some ''a.png'') ?m =
     (Inr (),
      (reset ?m)\<lparr>frame_count := 1,
        region := Some (update_graphics ''plane-surfaces''
           (\<lambda>g. g\<lparr>g_material := Some (ImageMaterial [''a.png''])\<rparr>)
           ((createGraphics ?m (createModel createChild))\<lparr>nodes := map (\<lambda>p. rescale 2000 1000 p)
               (nodes (createGraphics ?m (createModel createChild)))\<rparr>))\<rparr>)"
    using load_images_rescale [OF r, of "[''a.png'']" one_image_fs 2000 1000 id id]
    by (simp add: f setImageInfo_def createGraphics_def createModel_def Let_def)
  have "region init = None
   \<and> ?m = init\<lparr>settings := (settings init)\<lparr>image_plane_fixed := True\<rparr>\<rparr>
   \<and> fst (setImageInfo one_image_fs id id (Some ''a.png'') ?m) = Inr ()
   \<and> isImagePlaneFixed (snd (setImageInfo one_image_fs id id (Some ''a.png'') ?m))
   \<and> map_option (\<lambda>r. map (\<lambda>g. (g_name g, g_coordinate_field g)) (scene_graphics r))
        (region (snd (setImageInfo one_image_fs id id (Some ''a.png'') ?m))) =
       Some [(''plane-lines'', Some ScaledCoordinateField),
             (''plane-surfaces'', Some ScaledCoordinateField)]"
    unfolding l
    by (simp add: i m isImagePlaneFixed_def reset_def update_graphics_def createGraphics_def
        createModel_def createChild_def createGraphics_new_def Let_def)
  then show ?thesis .
qed

subsection \<open>The natural order of file names\<close>










text \<open>The key of a name: the runs without a digit as strings, the runs of digits as numbers.\<close>

lemma alphanum_key_example:
  "alphanum_key ''img10.png'' = [Str ''img'', Num 10, Str ''.png'']"
  by code_simp



end
